theory Spec2Isabelle
  imports Main "HOL-Library.Word"
begin

section \<open>JavaScript strings\<close>

text \<open>
  A JavaScript string is a sequence of 16-bit code units; \<open>length\<close> counts code units.
  String literals of the source are written through \<open>js\<close>.
\<close>

type_synonym jsstring = "16 word list"

definition js :: "string \<Rightarrow> jsstring" where
  "js s = map of_char s"

text \<open>
  \<open>String.prototype.trim\<close> removes leading and trailing code units that are WhiteSpace
  or LineTerminator in ECMAScript: TAB, LF, VT, FF, CR, SPACE, NBSP, U+1680,
  U+2000..U+200A, U+2028, U+2029, U+202F, U+205F, U+3000 and U+FEFF.
\<close>

definition isWhiteSpace :: "16 word \<Rightarrow> bool" where
  "isWhiteSpace c =
     (c = 0x0009 \<or> c = 0x000A \<or> c = 0x000B \<or> c = 0x000C \<or> c = 0x000D \<or> c = 0x0020
      \<or> c = 0x00A0 \<or> c = 0x1680 \<or> (0x2000 \<le> c \<and> c \<le> 0x200A)
      \<or> c = 0x2028 \<or> c = 0x2029 \<or> c = 0x202F \<or> c = 0x205F \<or> c = 0x3000 \<or> c = 0xFEFF)"

definition trim :: "jsstring \<Rightarrow> jsstring" where
  "trim s = rev (dropWhile isWhiteSpace (rev (dropWhile isWhiteSpace s)))"

text \<open>\<open>a || b\<close> on strings: the empty string is falsy.\<close>

definition or_else :: "jsstring \<Rightarrow> jsstring \<Rightarrow> jsstring" where
  "or_else a b = (if a = [] then b else a)"

section \<open>JSON values\<close>

datatype json =
    JNull
  | JBool bool
  | JNumber int
  | JString jsstring
  | JArray "json list"
  | JObject "(jsstring \<times> json) list"

section \<open>The tables of the migration\<close>

text \<open>
  Rows carry the columns the application reads or writes; the timestamp columns
  (\<open>created_at\<close>, \<open>updated_at\<close>, \<open>consultation_date\<close>) are filled by the database and
  never inspected by the code below, and are left out. A UUID is an abstract identifier.
\<close>

type_synonym uuid = nat

datatype status = in_progress | completed | cancelled

record consultation =
  c_id :: uuid
  doctor_id :: uuid
  patient_name :: jsstring
  patient_id :: "jsstring option"
  c_status :: status
  duration_minutes :: "int option"

record medical_note =
  note_id :: uuid
  consultation_id :: uuid
  subjective :: jsstring
  objective :: jsstring
  assessment :: jsstring
  plan :: jsstring
  raw_transcript :: jsstring
  extracted_entities :: json
  is_reviewed :: bool

text \<open>
  \<open>profiles\<close> holds the \<open>user_id\<close> of every profile row, the target of the foreign key
  of \<open>consultations.doctor_id\<close>. \<open>medical_notes\<close> has the primary key \<open>id\<close> and a foreign
  key \<open>consultation_id\<close>; the migration puts no UNIQUE constraint on \<open>consultation_id\<close>
  (the generated types say \<open>isOneToOne: false\<close>).
\<close>

record database =
  profiles :: "uuid list"
  consultations :: "consultation list"
  medical_notes :: "medical_note list"

datatype db_error =
    GatewayFault jsstring
  | NotNullViolation
  | RlsViolation
  | UniqueViolation
  | ForeignKeyViolation

text \<open>
  What a single call to the persistence gateway gets from outside the program:
  the signed-in user (\<open>auth.uid()\<close>), the value \<open>gen_random_uuid()\<close> draws for the
  \<open>id\<close> column default, and a failure of the service itself, if any.
\<close>

record env =
  auth_uid :: "uuid option"
  gen_random_uuid :: uuid
  gateway_fault :: "jsstring option"

text \<open>
  Row-level security of \<open>medical_notes\<close>, for INSERT (WITH CHECK) and UPDATE (USING):
  \<open>auth.uid() IN (SELECT doctor_id FROM consultations WHERE id = consultation_id)\<close>.
\<close>

definition owns_consultation :: "env \<Rightarrow> database \<Rightarrow> uuid \<Rightarrow> bool" where
  "owns_consultation e db cid =
     (\<exists>c \<in> set (consultations db). c_id c = cid \<and> auth_uid e = Some (doctor_id c))"

subsection \<open>\<open>from('consultations').insert({patient_name, patient_id, doctor_id}).select().single()\<close>\<close>

text \<open>
  \<open>id\<close> and \<open>status\<close> are not in the payload and take their column defaults:
  \<open>gen_random_uuid()\<close> and \<open>'in_progress'\<close>. The primary key rejects an id that is
  already in the table. An absent \<open>doctor_id\<close> (signed out) is NULL in a NOT NULL column.
\<close>

definition insert_consultation ::
  "env \<Rightarrow> database \<Rightarrow> jsstring \<Rightarrow> jsstring option \<Rightarrow> uuid option
     \<Rightarrow> db_error + (database \<times> consultation)" where
  "insert_consultation e db name pid doctor =
     (case gateway_fault e of
        Some m \<Rightarrow> Inl (GatewayFault m)
      | None \<Rightarrow>
         (case doctor of
            None \<Rightarrow> Inl NotNullViolation
          | Some d \<Rightarrow>
              if auth_uid e \<noteq> Some d then Inl RlsViolation
              else if gen_random_uuid e \<in> set (map c_id (consultations db)) then Inl UniqueViolation
              else if d \<notin> set (profiles db) then Inl ForeignKeyViolation
              else
                (let row = \<lparr>c_id = gen_random_uuid e, doctor_id = d, patient_name = name,
                             patient_id = pid, c_status = in_progress, duration_minutes = None\<rparr>
                 in Inr (db\<lparr>consultations := consultations db @ [row]\<rparr>, row))))"

subsection \<open>\<open>from('medical_notes').upsert({...}).select().single()\<close>\<close>

text \<open>The columns the page sends; \<open>id\<close> is not among them.\<close>

record note_payload =
  p_consultation_id :: uuid
  p_subjective :: jsstring
  p_objective :: jsstring
  p_assessment :: jsstring
  p_plan :: jsstring
  p_raw_transcript :: jsstring
  p_extracted_entities :: json
  p_is_reviewed :: bool

definition new_note :: "uuid \<Rightarrow> note_payload \<Rightarrow> medical_note" where
  "new_note i p =
     \<lparr>note_id = i, consultation_id = p_consultation_id p, subjective = p_subjective p,
      objective = p_objective p, assessment = p_assessment p, plan = p_plan p,
      raw_transcript = p_raw_transcript p, extracted_entities = p_extracted_entities p,
      is_reviewed = p_is_reviewed p\<rparr>"

text \<open>
  The call passes no \<open>onConflict\<close> option, so the conflict target of the upsert is the
  primary key \<open>id\<close>: the statement is
  \<open>INSERT ... ON CONFLICT (id) DO UPDATE SET <payload columns>\<close>, and the id of the
  new row is the column default. The row is inserted unless that very id is already
  in the table, in which case the payload columns of that row are overwritten
  (if the UPDATE policy lets the user see it).
\<close>

definition upsert_medical_note ::
  "env \<Rightarrow> database \<Rightarrow> note_payload \<Rightarrow> db_error + (database \<times> medical_note)" where
  "upsert_medical_note e db p =
     (case gateway_fault e of
        Some m \<Rightarrow> Inl (GatewayFault m)
      | None \<Rightarrow>
          if \<not> owns_consultation e db (p_consultation_id p) then Inl RlsViolation
          else
            (let row = new_note (gen_random_uuid e) p in
             if \<exists>r \<in> set (medical_notes db). note_id r = note_id row then
               if \<exists>r \<in> set (medical_notes db).
                    note_id r = note_id row \<and> \<not> owns_consultation e db (consultation_id r)
               then Inl RlsViolation
               else Inr (db\<lparr>medical_notes :=
                              map (\<lambda>r. if note_id r = note_id row then row else r)
                                  (medical_notes db)\<rparr>, row)
             else Inr (db\<lparr>medical_notes := medical_notes db @ [row]\<rparr>, row)))"

subsection \<open>\<open>from('medical_notes').update({...}).eq('id', note.id)\<close>\<close>

text \<open>
  An UPDATE touches the rows that match the filter and that the USING policy shows to
  the user; matching no row is not an error.
\<close>

definition update_medical_note ::
  "env \<Rightarrow> database \<Rightarrow> uuid \<Rightarrow> jsstring \<Rightarrow> jsstring \<Rightarrow> jsstring \<Rightarrow> jsstring \<Rightarrow> bool
     \<Rightarrow> db_error + database" where
  "update_medical_note e db i s ob a pl rv =
     (case gateway_fault e of
        Some m \<Rightarrow> Inl (GatewayFault m)
      | None \<Rightarrow>
          Inr (db\<lparr>medical_notes :=
                    map (\<lambda>r. if note_id r = i \<and> owns_consultation e db (consultation_id r)
                              then r\<lparr>subjective := s, objective := ob, assessment := a,
                                     plan := pl, is_reviewed := rv\<rparr>
                              else r)
                        (medical_notes db)\<rparr>))"

section \<open>The consultation page (ConsultationPage.tsx)\<close>

record toast =
  title :: jsstring
  description :: jsstring
  destructive :: bool

text \<open>
  The React state of the page the handlers write, with what they emit: the toasts shown
  and the files offered for download (name and content).
\<close>

record page =
  consultation :: "consultation option"
  medicalNote :: "medical_note option"
  isProcessing :: bool
  activeTab :: jsstring
  toasts :: "toast list"
  downloads :: "(jsstring \<times> jsstring) list"

text \<open>The audio blob is handed through and never read by the page.\<close>

record blob =
  blob_type :: jsstring
  blob_data :: "8 word list"

definition placeholderText :: jsstring where
  "placeholderText =
     js ''Audio recorded but transcription failed. Please review the audio manually.''"

text \<open>
  The \<open>try\<close> block of \<open>handleTranscriptionComplete\<close>; \<open>Inl\<close> is
  \<open>if (error) throw error\<close>. \<open>i\<close> is the \<open>id\<close> route parameter.
\<close>

definition transcription_try ::
  "env \<Rightarrow> uuid \<Rightarrow> database \<Rightarrow> page \<Rightarrow> jsstring \<Rightarrow> db_error + (database \<times> page)" where
  "transcription_try e i db st transcript =
     (if transcript = [] \<or> length (trim transcript) = 0 then
        (case upsert_medical_note e db
                \<lparr>p_consultation_id = i, p_subjective = placeholderText, p_objective = [],
                 p_assessment = [], p_plan = [],
                 p_raw_transcript = js ''Transcription failed'',
                 p_extracted_entities = JObject [], p_is_reviewed = False\<rparr> of
           Inl err \<Rightarrow> Inl err
         | Inr (db', data) \<Rightarrow>
             Inr (db', st\<lparr>medicalNote := Some data, activeTab := js ''notes'',
                          toasts := toasts st @
                            [\<lparr>title = js ''Note Created'',
                              description = js ''Audio recorded but transcription failed. Please review manually.'',
                              destructive = True\<rparr>]\<rparr>))
      else
        (let simplified = transcript in
         case upsert_medical_note e db
                \<lparr>p_consultation_id = i, p_subjective = or_else simplified [], p_objective = [],
                 p_assessment = [], p_plan = [],
                 p_raw_transcript = transcript,
                 p_extracted_entities = JObject [], p_is_reviewed = False\<rparr> of
           Inl err \<Rightarrow> Inl err
         | Inr (db', data) \<Rightarrow>
             Inr (db', st\<lparr>medicalNote := Some data, activeTab := js ''notes'',
                          downloads := downloads st @
                            [(js ''transcript-'' @
                                or_else (case consultation st of None \<Rightarrow> []
                                         | Some c \<Rightarrow> patient_name c) (js ''patient'')
                                @ js ''.txt'',
                              or_else simplified [])],
                          toasts := toasts st @
                            [\<lparr>title = js ''Transcript Simplified'',
                              description = js ''Download ready and note saved.'',
                              destructive = False\<rparr>]\<rparr>)))"

text \<open>
  The handler: \<open>try\<close>, \<open>catch\<close> (a toast, the database as it was) and \<open>finally\<close>.
  \<open>Inl\<close> in the result is an exception that leaves the handler.
\<close>

definition handleTranscriptionComplete ::
  "env \<Rightarrow> uuid \<Rightarrow> database \<times> page \<Rightarrow> jsstring \<Rightarrow> blob \<Rightarrow> db_error + (database \<times> page)" where
  "handleTranscriptionComplete e i dbst transcript audioBlob =
     (case dbst of (db, st) \<Rightarrow>
        (let st1 = st\<lparr>isProcessing := True\<rparr> in
         case transcription_try e i db st1 transcript of
           Inl err \<Rightarrow>
             Inr (db, st1\<lparr>toasts := toasts st1 @
                            [\<lparr>title = js ''Processing Error'',
                              description = js ''Failed to generate medical note. Please try again.'',
                              destructive = True\<rparr>],
                          isProcessing := False\<rparr>)
         | Inr (db', st2) \<Rightarrow> Inr (db', st2\<lparr>isProcessing := False\<rparr>)))"

text \<open>
  \<open>handleSaveNote\<close> has no \<open>try\<close>: an error of the update is thrown to the caller.
  \<open>{ ...prev, ...note, is_reviewed: true }\<close> takes every field from \<open>note\<close>.
\<close>

definition handleSaveNote ::
  "env \<Rightarrow> database \<times> page \<Rightarrow> medical_note \<Rightarrow> db_error + (database \<times> page)" where
  "handleSaveNote e dbst note =
     (case dbst of (db, st) \<Rightarrow>
        (case update_medical_note e db (note_id note) (subjective note) (objective note)
                (assessment note) (plan note) True of
           Inl err \<Rightarrow> Inl err
         | Inr db' \<Rightarrow>
             Inr (db', st\<lparr>medicalNote :=
                            (case medicalNote st of None \<Rightarrow> None
                             | Some prev \<Rightarrow> Some (note\<lparr>is_reviewed := True\<rparr>))\<rparr>)))"

text \<open>
  \<open>from('consultations').update({ status: 'completed' }).eq('id', id)\<close>, under the
  UPDATE policy \<open>auth.uid() = doctor_id\<close>, and the handler around it.
\<close>

definition update_consultation_status ::
  "env \<Rightarrow> database \<Rightarrow> uuid \<Rightarrow> status \<Rightarrow> db_error + database" where
  "update_consultation_status e db i s =
     (case gateway_fault e of
        Some m \<Rightarrow> Inl (GatewayFault m)
      | None \<Rightarrow>
          Inr (db\<lparr>consultations :=
                    map (\<lambda>c. if c_id c = i \<and> auth_uid e = Some (doctor_id c)
                              then c\<lparr>c_status := s\<rparr> else c)
                        (consultations db)\<rparr>))"

definition handleCompleteConsultation ::
  "env \<Rightarrow> uuid \<Rightarrow> database \<times> page \<Rightarrow> db_error + (database \<times> page)" where
  "handleCompleteConsultation e i dbst =
     (case dbst of (db, st) \<Rightarrow>
        (case update_consultation_status e db i completed of
           Inl err \<Rightarrow>
             Inr (db, st\<lparr>toasts := toasts st @
                           [\<lparr>title = js ''Error'',
                             description = js ''Failed to complete consultation'',
                             destructive = True\<rparr>]\<rparr>)
         | Inr db' \<Rightarrow>
             Inr (db', st\<lparr>consultation :=
                            (case consultation st of None \<Rightarrow> None
                             | Some prev \<Rightarrow> Some (prev\<lparr>c_status := completed\<rparr>)),
                          toasts := toasts st @
                            [\<lparr>title = js ''Consultation Completed'',
                              description = js ''Consultation has been marked as completed.'',
                              destructive = False\<rparr>]\<rparr>)))"

section \<open>The new-consultation dialog (NewConsultationDialog.tsx)\<close>

record dialog =
  patientName :: jsstring
  patientId :: jsstring
  loading :: bool
  dialog_open :: bool
  navigated_to :: "uuid option"
  dialog_toasts :: "toast list"

text \<open>
  \<open>handleSubmit\<close>: the owner sent is the signed-in user, an empty patient id is sent
  as null. On success the dialog closes and navigates to \<open>/consultation/<id>\<close>.
  The parent's \<open>onSuccess\<close> callback, which reloads the list, is left out.
\<close>

definition handleSubmit :: "env \<Rightarrow> database \<times> dialog \<Rightarrow> db_error + (database \<times> dialog)" where
  "handleSubmit e dbd =
     (case dbd of (db, d) \<Rightarrow>
        (let d1 = d\<lparr>loading := True\<rparr> in
         case insert_consultation e db (patientName d1)
                (if patientId d1 = [] then None else Some (patientId d1)) (auth_uid e) of
           Inl err \<Rightarrow>
             Inr (db, d1\<lparr>dialog_toasts := dialog_toasts d1 @
                            [\<lparr>title = js ''Error'',
                              description = js ''Failed to create consultation'',
                              destructive = True\<rparr>],
                          loading := False\<rparr>)
         | Inr (db', data) \<Rightarrow>
             Inr (db', d1\<lparr>dialog_toasts := dialog_toasts d1 @
                             [\<lparr>title = js ''Consultation Started'',
                               description = js ''New consultation created for '' @ patientName d1,
                               destructive = False\<rparr>],
                           dialog_open := False,
                           navigated_to := Some (c_id data),
                           patientName := [], patientId := [],
                           loading := False\<rparr>)))"

section \<open>The recorder (AudioRecorder.tsx)\<close>

text \<open>
  What the backend transcription function answers to the recorder's \<open>fetch\<close>:
  the request fails, the status is not ok (with the body text), the body is not JSON,
  or a JSON body with its \<open>error\<close> and \<open>text\<close> members (empty when absent).
\<close>

datatype backend_reply =
    BackendUnreachable jsstring
  | BackendNotOk jsstring
  | BackendBadJson jsstring
  | BackendData jsstring jsstring

text \<open>\<open>base64_result\<close> is what \<open>toBase64\<close> resolves to, or the FileReader error.\<close>

record transcribe_env =
  base64_result :: "jsstring + jsstring"
  backend :: backend_reply

definition noSpeechPlaceholder :: jsstring where
  "noSpeechPlaceholder =
     js ''Audio recorded but no speech was detected. Please check audio quality and try again.''"

text \<open>
  \<open>transcribeWithAssemblyAIStreaming\<close>: \<open>Inl\<close> is the message of the error thrown;
  \<open>Inr\<close> is the parent's state after \<open>onTranscriptionComplete\<close> has been called.
\<close>

definition transcribeWithAssemblyAIStreaming ::
  "(jsstring \<Rightarrow> blob \<Rightarrow> 'p \<Rightarrow> 'p) \<Rightarrow> transcribe_env \<Rightarrow> blob \<Rightarrow> 'p \<Rightarrow> jsstring + 'p" where
  "transcribeWithAssemblyAIStreaming onTranscriptionComplete te audioBlob parent =
     (case base64_result te of
        Inl m \<Rightarrow> Inl m
      | Inr audioBase64 \<Rightarrow>
         (case backend te of
            BackendUnreachable m \<Rightarrow> Inl m
          | BackendNotOk txt \<Rightarrow> Inl (js ''Backend transcription failed: '' @ txt)
          | BackendBadJson m \<Rightarrow> Inl m
          | BackendData err txt \<Rightarrow>
              if err \<noteq> [] then Inl err
              else
                (let transcript = or_else txt [] in
                 if transcript = [] \<or> length (trim transcript) = 0
                 then Inr (onTranscriptionComplete noSpeechPlaceholder audioBlob parent)
                 else Inr (onTranscriptionComplete transcript audioBlob parent))))"

record recorder =
  isTranscribing :: bool
  recorder_toasts :: "toast list"

text \<open>\<open>transcribeAudio\<close>, called from \<open>onstop\<close> with the finalized recording.\<close>

definition transcribeAudio ::
  "(jsstring \<Rightarrow> blob \<Rightarrow> 'p \<Rightarrow> 'p) \<Rightarrow> transcribe_env \<Rightarrow> blob \<Rightarrow> recorder \<times> 'p \<Rightarrow> recorder \<times> 'p" where
  "transcribeAudio onTranscriptionComplete te audioBlob rp =
     (case rp of (r, parent) \<Rightarrow>
        (let r1 = r\<lparr>isTranscribing := True\<rparr> in
         case transcribeWithAssemblyAIStreaming onTranscriptionComplete te audioBlob parent of
           Inl m \<Rightarrow>
             (r1\<lparr>recorder_toasts := recorder_toasts r1 @
                    [\<lparr>title = js ''Transcription Error'',
                      description = js ''Failed to transcribe audio: '' @
                                      or_else m (js ''Unknown error''),
                      destructive = True\<rparr>],
                  isTranscribing := False\<rparr>, parent)
         | Inr parent' \<Rightarrow> (r1\<lparr>isTranscribing := False\<rparr>, parent')))"

text \<open>
  The page passes \<open>handleTranscriptionComplete\<close> as the callback; the recorder does not
  await the promise it returns.
\<close>

definition onTranscriptionComplete ::
  "env \<Rightarrow> uuid \<Rightarrow> jsstring \<Rightarrow> blob \<Rightarrow> database \<times> page \<Rightarrow> database \<times> page" where
  "onTranscriptionComplete e i transcript audioBlob dbst =
     (case handleTranscriptionComplete e i dbst transcript audioBlob of
        Inl err \<Rightarrow> dbst
      | Inr dbst' \<Rightarrow> dbst')"

section \<open>The edge functions\<close>

datatype body = Text jsstring | Json json

record response =
  resp_status :: nat
  resp_body :: body

definition error_response :: "jsstring \<Rightarrow> response" where
  "error_response m = \<lparr>resp_status = 500, resp_body = Json (JObject [(js ''error'', JString m)])\<rparr>"

subsection \<open>The poll loop of transcribe-assemblyai and transcribe-audio\<close>

text \<open>
  The answer to one status request: not ok, a body that is not JSON, or the
  \<open>status\<close>, \<open>text\<close> and \<open>error\<close> members of the body.
\<close>

datatype status_reply =
    StatusNotOk
  | StatusBadJson jsstring
  | StatusData jsstring jsstring jsstring

text \<open>
  The \<open>while (attempts < maxAttempts)\<close> loop. \<open>vendor k\<close> is the answer to the status
  request of iteration \<open>k\<close>. The result is what the loop ends with (\<open>Inl\<close> the message of
  the error thrown, \<open>Inr\<close> the text returned), the number of status requests made,
  and the milliseconds spent in \<open>setTimeout\<close>.
\<close>

function poll ::
  "(nat \<Rightarrow> status_reply) \<Rightarrow> nat \<Rightarrow> nat \<Rightarrow> nat \<Rightarrow> (jsstring + jsstring) \<times> nat \<times> nat" where
  "poll vendor maxAttempts attempts waited =
     (if attempts < maxAttempts then
        (let waited' = waited + 1000 in
         case vendor attempts of
           StatusNotOk \<Rightarrow>
             (Inl (js ''Failed to check transcription status''), attempts + 1, waited')
         | StatusBadJson m \<Rightarrow> (Inl m, attempts + 1, waited')
         | StatusData st txt err \<Rightarrow>
             if st = js ''completed'' then (Inr txt, attempts + 1, waited')
             else if st = js ''error''
             then (Inl (js ''Transcription failed: '' @ err), attempts + 1, waited')
             else poll vendor maxAttempts (attempts + 1) waited')
      else (Inl (js ''Transcription timeout''), attempts, waited))"
  by pat_completeness auto
termination
  by (relation "measure (\<lambda>(vendor, maxAttempts, attempts, waited). maxAttempts - attempts)") auto

declare poll.simps [simp del]

text \<open>
  The handlers. Everything before the loop (reading the request, the API key, the
  upload and the job creation) talks to the vendor only; \<open>prelude\<close> is its outcome:
  the message of the error it throws, or the job id. The \<open>catch\<close> turns every error
  into a 500 response.
\<close>

definition transcribe_handler ::
  "nat \<Rightarrow> jsstring \<Rightarrow> jsstring + jsstring \<Rightarrow> (nat \<Rightarrow> status_reply) \<Rightarrow> response" where
  "transcribe_handler maxAttempts method prelude vendor =
     (if method = js ''OPTIONS'' then \<lparr>resp_status = 200, resp_body = Text (js ''ok'')\<rparr>
      else
        (case prelude of
           Inl m \<Rightarrow> error_response m
         | Inr job \<Rightarrow>
            (case fst (poll vendor maxAttempts 0 0) of
               Inl m \<Rightarrow> error_response m
             | Inr txt \<Rightarrow>
                 \<lparr>resp_status = 200,
                  resp_body = Json (JObject [(js ''text'', JString txt)])\<rparr>)))"

definition transcribe_assemblyai ::
  "jsstring \<Rightarrow> jsstring + jsstring \<Rightarrow> (nat \<Rightarrow> status_reply) \<Rightarrow> response" where
  "transcribe_assemblyai = transcribe_handler 30"

definition transcribe_audio ::
  "jsstring \<Rightarrow> jsstring + jsstring \<Rightarrow> (nat \<Rightarrow> status_reply) \<Rightarrow> response" where
  "transcribe_audio = transcribe_handler 60"

subsection \<open>generate-soap-note\<close>

record soap_request =
  req_method :: jsstring
  req_transcript :: jsstring
  req_patientName :: jsstring

text \<open>
  The variant that calls the chat-completion endpoint. The vendor's answer: the request
  fails, the status is not ok (with the body text), the body is not JSON, the body has
  no \<open>choices[0].message.content\<close> (reading it throws), or that content.
\<close>

datatype completion_reply =
    CompletionUnreachable jsstring
  | CompletionNotOk jsstring
  | CompletionBadJson jsstring
  | CompletionNoContent jsstring
  | CompletionContent jsstring

definition unparsed :: jsstring where
  "unparsed = js ''Unable to parse structured data''"

text \<open>
  \<open>JSON_parse\<close> is the platform's \<open>JSON.parse\<close>: the value, or \<open>Inl\<close> the message of
  the SyntaxError. \<open>Inl\<close> below is an error that reaches the outer \<open>catch\<close>.
\<close>

definition soap_openai_try ::
  "(jsstring \<Rightarrow> jsstring + json) \<Rightarrow> soap_request \<Rightarrow> completion_reply \<Rightarrow> jsstring + response" where
  "soap_openai_try JSON_parse req reply =
     (if req_transcript req = [] then Inl (js ''No transcript provided'')
      else
        (case reply of
           CompletionUnreachable m \<Rightarrow> Inl m
         | CompletionNotOk errorText \<Rightarrow> Inl (js ''OpenAI API error: '' @ errorText)
         | CompletionBadJson m \<Rightarrow> Inl m
         | CompletionNoContent m \<Rightarrow> Inl m
         | CompletionContent content \<Rightarrow>
            (case JSON_parse content of
               Inr soapNote \<Rightarrow> Inr \<lparr>resp_status = 200, resp_body = Json soapNote\<rparr>
             | Inl parseError \<Rightarrow>
                 Inr \<lparr>resp_status = 200,
                      resp_body = Json (JObject
                        [(js ''subjective'', JString content),
                         (js ''objective'', JString unparsed),
                         (js ''assessment'', JString unparsed),
                         (js ''plan'', JString unparsed),
                         (js ''extracted_entities'', JObject [])])\<rparr>)))"

definition generate_soap_note_openai ::
  "(jsstring \<Rightarrow> jsstring + json) \<Rightarrow> soap_request \<Rightarrow> completion_reply \<Rightarrow> response" where
  "generate_soap_note_openai JSON_parse req reply =
     (if req_method req = js ''OPTIONS'' then \<lparr>resp_status = 200, resp_body = Text (js ''ok'')\<rparr>
      else
        (case soap_openai_try JSON_parse req reply of
           Inl m \<Rightarrow> error_response m
         | Inr r \<Rightarrow> r))"

text \<open>
  The variant of \<open>supabase/functions/generate-soap-note/index.ts\<close>, which calls the
  Gemini SDK. The model selection and the retry with a fallback model talk to the SDK
  only; \<open>generated\<close> is their outcome: the message of the error thrown, or
  \<open>result.response.text()\<close>. The parse has no \<open>try\<close> of its own.
\<close>

definition soap_gemini_try ::
  "(jsstring \<Rightarrow> jsstring + json) \<Rightarrow> soap_request \<Rightarrow> jsstring option \<Rightarrow> jsstring + jsstring
     \<Rightarrow> jsstring + response" where
  "soap_gemini_try JSON_parse req geminiApiKey generated =
     (if req_transcript req = [] then Inl (js ''transcript is required'')
      else if geminiApiKey = None \<or> geminiApiKey = Some [] then Inl (js ''GEMINI_API_KEY is not set'')
      else
        (case generated of
           Inl m \<Rightarrow> Inl m
         | Inr processedText \<Rightarrow>
            (case JSON_parse processedText of
               Inl m \<Rightarrow> Inl m
             | Inr parsedResponse \<Rightarrow>
                 Inr \<lparr>resp_status = 200, resp_body = Json parsedResponse\<rparr>)))"

definition generate_soap_note ::
  "(jsstring \<Rightarrow> jsstring + json) \<Rightarrow> soap_request \<Rightarrow> jsstring option \<Rightarrow> jsstring + jsstring
     \<Rightarrow> response" where
  "generate_soap_note JSON_parse req geminiApiKey generated =
     (if req_method req = js ''OPTIONS'' then \<lparr>resp_status = 200, resp_body = Text (js ''ok'')\<rparr>
      else
        (case soap_gemini_try JSON_parse req geminiApiKey generated of
           Inl m \<Rightarrow> error_response m
         | Inr r \<Rightarrow> r))"

section \<open>Notions used in the statements\<close>

text \<open>A string \<open>trim\<close> empties: every code unit is white space.\<close>

definition blank :: "jsstring \<Rightarrow> bool" where
  "blank t = list_all isWhiteSpace t"

text \<open>
  The persistence gateway accepts the note write of the page for consultation \<open>i\<close>:
  the service answers, the signed-in user owns the consultation, and the id drawn for
  the row does not hit a row the user may not update.
\<close>

definition write_accepted :: "env \<Rightarrow> database \<Rightarrow> uuid \<Rightarrow> bool" where
  "write_accepted e db i =
     (gateway_fault e = None \<and> owns_consultation e db i \<and>
      list_all (\<lambda>r. note_id r = gen_random_uuid e \<longrightarrow> owns_consultation e db (consultation_id r))
               (medical_notes db))"

text \<open>The notes stored for a consultation.\<close>

definition notes_of :: "database \<Rightarrow> uuid \<Rightarrow> medical_note list" where
  "notes_of db i = filter (\<lambda>r. consultation_id r = i) (medical_notes db)"

text \<open>
  A status answer that lets the poll loop go on: the request is ok and the status is
  neither \<open>completed\<close> nor \<open>error\<close> (\<open>queued\<close> or \<open>processing\<close>, say).
\<close>

definition pending :: "status_reply \<Rightarrow> bool" where
  "pending r =
     (case r of
        StatusData st txt err \<Rightarrow> st \<noteq> js ''completed'' \<and> st \<noteq> js ''error''
      | _ \<Rightarrow> False)"

text \<open>The recorder's transcription request fails: one of the paths that throw.\<close>

definition transcription_fails :: "transcribe_env \<Rightarrow> bool" where
  "transcription_fails te =
     (case base64_result te of
        Inl m \<Rightarrow> True
      | Inr b \<Rightarrow>
         (case backend te of
            BackendData err txt \<Rightarrow> err \<noteq> []
          | _ \<Rightarrow> True))"

subsection \<open>A small database for concrete runs\<close>

text \<open>
  One practitioner (user 7) with one consultation (id 1) and no note yet; the user is
  signed in, the service answers, and \<open>g\<close> is the id drawn.
\<close>

definition example_db :: database where
  "example_db =
     \<lparr>profiles = [7],
      consultations =
        [\<lparr>c_id = 1, doctor_id = 7, patient_name = js ''Ann'', patient_id = None,
          c_status = in_progress, duration_minutes = None\<rparr>],
      medical_notes = []\<rparr>"

definition example_env :: "uuid \<Rightarrow> env" where
  "example_env g = \<lparr>auth_uid = Some 7, gen_random_uuid = g, gateway_fault = None\<rparr>"

definition example_page :: page where
  "example_page =
     \<lparr>consultation = None, medicalNote = None, isProcessing = False,
      activeTab = js ''recording'', toasts = [], downloads = []\<rparr>"

text \<open>A stored note of the example consultation, not yet reviewed.\<close>

definition example_note :: medical_note where
  "example_note =
     \<lparr>note_id = 10, consultation_id = 1, subjective = js ''Dry cough.'', objective = [],
      assessment = [], plan = [], raw_transcript = js ''Dry cough.'',
      extracted_entities = JObject [], is_reviewed = False\<rparr>"

definition example_dialog :: dialog where
  "example_dialog =
     \<lparr>patientName = js ''Bob'', patientId = [], loading = False, dialog_open = True,
      navigated_to = None, dialog_toasts = []\<rparr>"

definition example_recorder :: recorder where
  "example_recorder = \<lparr>isTranscribing = False, recorder_toasts = []\<rparr>"

text \<open>
  A stand-in for \<open>JSON.parse\<close> in concrete runs: it knows the empty object and
  rejects every other text.
\<close>

definition example_parse :: "jsstring \<Rightarrow> jsstring + json" where
  "example_parse s =
     (if s = js ''{}'' then Inr (JObject []) else Inl (js ''Unexpected token''))"

definition example_blob :: blob where
  "example_blob = \<lparr>blob_type = js ''audio/webm;codecs=opus'', blob_data = [26, 69, 223, 163]\<rparr>"

section \<open>Strings\<close>

lemma trim_empty_iff: "trim t = [] \<longleftrightarrow> blank t"
proof
  assume "trim t = []"
  then have a: "\<forall>x \<in> set (dropWhile isWhiteSpace t). isWhiteSpace x"
    by (simp add: trim_def)
  have "dropWhile isWhiteSpace t = []"
  proof (rule ccontr)
    assume ne: "dropWhile isWhiteSpace t \<noteq> []"
    then have "\<not> isWhiteSpace (hd (dropWhile isWhiteSpace t))" by (rule hd_dropWhile)
    moreover from ne have "hd (dropWhile isWhiteSpace t) \<in> set (dropWhile isWhiteSpace t)"
      by (rule hd_in_set)
    ultimately show False using a by blast
  qed
  then show "blank t" by (simp add: blank_def list_all_iff)
next
  assume "blank t"
  then have "dropWhile isWhiteSpace t = []" by (simp add: blank_def list_all_iff)
  then show "trim t = []" by (simp only: trim_def rev.simps dropWhile.simps)
qed

lemma missing_iff: "(t = [] \<or> length (trim t) = 0) \<longleftrightarrow> blank t"
proof -
  have "t = [] \<Longrightarrow> blank t" by (simp add: blank_def)
  then show ?thesis using trim_empty_iff [of t] by auto
qed

lemma not_blank_placeholderText: "\<not> blank placeholderText"
  by (simp add: blank_def placeholderText_def js_def isWhiteSpace_def)

lemma not_blank_failed: "\<not> blank (js ''Transcription failed'')"
  by (simp add: blank_def js_def isWhiteSpace_def)

lemma not_blank_noSpeech: "\<not> blank noSpeechPlaceholder"
  by (simp add: blank_def noSpeechPlaceholder_def js_def isWhiteSpace_def)

section \<open>The note write\<close>

lemma upsert_accepted:
  "write_accepted e db (p_consultation_id p) \<Longrightarrow>
     \<exists>db'. upsert_medical_note e db p = Inr (db', new_note (gen_random_uuid e) p) \<and>
           new_note (gen_random_uuid e) p \<in> set (medical_notes db') \<and>
           (\<forall>r \<in> set (medical_notes db'). r = new_note (gen_random_uuid e) p \<or> r \<in> set (medical_notes db))"
  by (auto simp: write_accepted_def upsert_medical_note_def list_all_iff Let_def new_note_def)

lemma upsert_rejected:
  "\<not> write_accepted e db (p_consultation_id p) \<Longrightarrow> \<exists>err. upsert_medical_note e db p = Inl err"
  by (auto simp: write_accepted_def upsert_medical_note_def list_all_iff Let_def new_note_def split: option.splits)

lemma upsert_Inr_row:
  "upsert_medical_note e db p = Inr (db', n) \<Longrightarrow>
     n = new_note (gen_random_uuid e) p \<and> n \<in> set (medical_notes db') \<and>
     (\<forall>r \<in> set (medical_notes db'). r = n \<or> r \<in> set (medical_notes db))"
  by (auto simp: upsert_medical_note_def Let_def split: option.splits if_splits)

lemma handler_never_throws:
  "\<exists>db' st'. handleTranscriptionComplete e i (db, st) t b = Inr (db', st')"
  by (auto simp: handleTranscriptionComplete_def Let_def split: sum.splits)

lemma placeholder_branch:
  assumes "blank t" and "write_accepted e db i"
  shows "\<exists>db' st' n. handleTranscriptionComplete e i (db, st) t b = Inr (db', st') \<and>
           medicalNote st' = Some n \<and> n \<in> set (medical_notes db') \<and>
           note_id n = gen_random_uuid e \<and> consultation_id n = i \<and>
           raw_transcript n = js ''Transcription failed'' \<and> subjective n = placeholderText \<and>
           \<not> is_reviewed n"
proof -
  let ?p = "\<lparr>p_consultation_id = i, p_subjective = placeholderText, p_objective = [],
                 p_assessment = [], p_plan = [],
                 p_raw_transcript = js ''Transcription failed'',
                 p_extracted_entities = JObject [], p_is_reviewed = False\<rparr>"
  from assms(2) have "write_accepted e db (p_consultation_id ?p)" by simp
  from upsert_accepted[OF this] obtain db' where
    u: "upsert_medical_note e db ?p = Inr (db', new_note (gen_random_uuid e) ?p)"
    and m: "new_note (gen_random_uuid e) ?p \<in> set (medical_notes db')" by blast
  from assms(1) have c: "t = [] \<or> length (trim t) = 0" using missing_iff [of t] by simp
  show ?thesis
    using u m c by (simp add: handleTranscriptionComplete_def transcription_try_def Let_def new_note_def)
qed

lemma verbatim_branch:
  assumes "\<not> blank t" and "write_accepted e db i"
  shows "\<exists>db' st' n. handleTranscriptionComplete e i (db, st) t b = Inr (db', st') \<and>
           medicalNote st' = Some n \<and> n \<in> set (medical_notes db') \<and>
           note_id n = gen_random_uuid e \<and> consultation_id n = i \<and>
           raw_transcript n = t \<and> subjective n = t \<and> \<not> is_reviewed n"
proof -
  let ?p = "\<lparr>p_consultation_id = i, p_subjective = or_else t [], p_objective = [],
                 p_assessment = [], p_plan = [],
                 p_raw_transcript = t,
                 p_extracted_entities = JObject [], p_is_reviewed = False\<rparr>"
  from assms(2) have "write_accepted e db (p_consultation_id ?p)" by simp
  from upsert_accepted[OF this] obtain db' where
    u: "upsert_medical_note e db ?p = Inr (db', new_note (gen_random_uuid e) ?p)"
    and m: "new_note (gen_random_uuid e) ?p \<in> set (medical_notes db')" by blast
  from assms(1) have c: "\<not> (t = [] \<or> length (trim t) = 0)" using missing_iff [of t] by simp
  then have o: "or_else t [] = t" by (simp add: or_else_def)
  show ?thesis
    using u m c o by (simp add: handleTranscriptionComplete_def transcription_try_def Let_def new_note_def)
qed


section \<open>Transcript arrival\<close>

lemmas page_defs =
  handleTranscriptionComplete_def transcription_try_def upsert_medical_note_def
  owns_consultation_def new_note_def write_accepted_def or_else_def trim_def isWhiteSpace_def
  js_def Let_def

lemmas example_defs = example_db_def example_env_def example_page_def example_blob_def

lemma example_write_accepted: "write_accepted (example_env g) example_db 1"
  by (simp add: write_accepted_def owns_consultation_def example_defs)

text \<open>
  Claim C3. With the empty string as transcript, for every blob, the handler returns
  without throwing; and when the persistence gateway accepts the write, the note it
  stores for the consultation (and shows on the page) has \<open>raw_transcript\<close> equal to
  "Transcription failed" and \<open>subjective\<close> equal to the fixed placeholder string.
\<close>

theorem empty_transcript_placeholder_note:
  "(\<exists>db' st'. handleTranscriptionComplete e i (db, st) [] audioBlob = Inr (db', st')) \<and>
   (write_accepted e db i \<longrightarrow>
      (\<exists>db' st' n. handleTranscriptionComplete e i (db, st) [] audioBlob = Inr (db', st') \<and>
         medicalNote st' = Some n \<and> n \<in> set (medical_notes db') \<and> consultation_id n = i \<and>
         raw_transcript n = js ''Transcription failed'' \<and> subjective n = placeholderText))"
proof -
  have b: "blank []" by (simp add: blank_def)
  show ?thesis
    using handler_never_throws [of e i db st "[]" audioBlob]
      placeholder_branch [OF b, of e db i st audioBlob]
    by blast
qed

text \<open>
  A run on the example database, with the id 10 drawn for the row.
\<close>

theorem empty_transcript_placeholder_note_witness:
  "write_accepted (example_env 10) example_db 1 \<and>
   (\<exists>db' st' n. handleTranscriptionComplete (example_env 10) 1 (example_db, example_page) []
                   example_blob = Inr (db', st') \<and>
      medicalNote st' = Some n \<and> n \<in> set (medical_notes db') \<and> consultation_id n = 1 \<and>
      raw_transcript n = js ''Transcription failed'' \<and> subjective n = placeholderText)"
proof -
  have h: "write_accepted (example_env 10) example_db 1" by (rule example_write_accepted)
  from empty_transcript_placeholder_note [of "example_env 10" 1 example_db example_page example_blob] h
  show ?thesis by blast
qed

text \<open>
  Claim C10. A transcript of white space only takes the branch of the empty string: the
  handler does exactly what it does for \<open>""\<close>, the stored note has the placeholder as
  \<open>subjective\<close> and "Transcription failed" as \<open>raw_transcript\<close>, and neither field
  holds the white-space text.
\<close>

theorem whitespace_transcript_as_empty:
  assumes "blank t"
  shows "handleTranscriptionComplete e i (db, st) t audioBlob =
           handleTranscriptionComplete e i (db, st) [] audioBlob \<and>
         (write_accepted e db i \<longrightarrow>
            (\<exists>db' st' n. handleTranscriptionComplete e i (db, st) t audioBlob = Inr (db', st') \<and>
               medicalNote st' = Some n \<and> n \<in> set (medical_notes db') \<and> consultation_id n = i \<and>
               subjective n = placeholderText \<and> raw_transcript n = js ''Transcription failed'' \<and>
               subjective n \<noteq> t \<and> raw_transcript n \<noteq> t))"
proof -
  from assms have c: "t = [] \<or> length (trim t) = 0" using missing_iff [of t] by simp
  then have same: "handleTranscriptionComplete e i (db, st) t audioBlob =
           handleTranscriptionComplete e i (db, st) [] audioBlob"
    by (simp add: handleTranscriptionComplete_def transcription_try_def)
  from assms have "t \<noteq> placeholderText" "t \<noteq> js ''Transcription failed''"
    using not_blank_placeholderText not_blank_failed by auto
  then show ?thesis
    using same placeholder_branch [OF assms, of e db i st audioBlob] by metis
qed

text \<open>
  A run with a single space as transcript.
\<close>

theorem whitespace_transcript_as_empty_witness:
  "blank (js '' '') \<and> write_accepted (example_env 10) example_db 1 \<and>
   handleTranscriptionComplete (example_env 10) 1 (example_db, example_page) (js '' '') example_blob =
     handleTranscriptionComplete (example_env 10) 1 (example_db, example_page) [] example_blob \<and>
   (\<exists>db' st' n. handleTranscriptionComplete (example_env 10) 1 (example_db, example_page)
                   (js '' '') example_blob = Inr (db', st') \<and>
      medicalNote st' = Some n \<and> subjective n = placeholderText \<and>
      raw_transcript n = js ''Transcription failed'')"
proof -
  have b: "blank (js '' '')" by (simp add: blank_def js_def isWhiteSpace_def)
  have h: "write_accepted (example_env 10) example_db 1" by (rule example_write_accepted)
  from whitespace_transcript_as_empty [OF b, of "example_env 10" 1 example_db example_page example_blob] h b
  show ?thesis by blast
qed

text \<open>
  The transcript \<open>" "\<close> is not empty, and the note stored for it holds the placeholder
  and "Transcription failed", not the transcript.
\<close>

theorem whitespace_transcript_not_verbatim:
  "js '' '' \<noteq> [] \<and>
   \<not> isl (handleTranscriptionComplete (example_env 10) 1 (example_db, example_page) (js '' '') example_blob) \<and>
   map subjective (medical_notes (fst (projr
      (handleTranscriptionComplete (example_env 10) 1 (example_db, example_page) (js '' '') example_blob))))
     = [placeholderText] \<and>
   map raw_transcript (medical_notes (fst (projr
      (handleTranscriptionComplete (example_env 10) 1 (example_db, example_page) (js '' '') example_blob))))
     = [js ''Transcription failed''] \<and>
   placeholderText \<noteq> js '' '' \<and> js ''Transcription failed'' \<noteq> js '' ''"
  by (simp add: page_defs example_defs placeholderText_def)

text \<open>
  Claim C4, amended. For every transcript with at least one code unit that is not white
  space, when the persistence gateway accepts the write, the stored note has
  \<open>subjective\<close> and \<open>raw_transcript\<close> both equal to the transcript, code unit for code unit.
\<close>

theorem nonblank_transcript_verbatim:
  assumes "\<not> blank t" and "write_accepted e db i"
  shows "\<exists>db' st' n. handleTranscriptionComplete e i (db, st) t audioBlob = Inr (db', st') \<and>
           medicalNote st' = Some n \<and> n \<in> set (medical_notes db') \<and> consultation_id n = i \<and>
           subjective n = t \<and> raw_transcript n = t"
  using verbatim_branch [OF assms, of st audioBlob] by blast

text \<open>
  The transcript of the specification's example.
\<close>

theorem nonblank_transcript_verbatim_witness:
  "\<not> blank (js ''Patient reports headache for 3 days.'') \<and>
   write_accepted (example_env 10) example_db 1 \<and>
   (\<exists>db' st' n. handleTranscriptionComplete (example_env 10) 1 (example_db, example_page)
                   (js ''Patient reports headache for 3 days.'') example_blob = Inr (db', st') \<and>
      medicalNote st' = Some n \<and> n \<in> set (medical_notes db') \<and> consultation_id n = 1 \<and>
      subjective n = js ''Patient reports headache for 3 days.'' \<and>
      raw_transcript n = js ''Patient reports headache for 3 days.'')"
proof -
  have b: "\<not> blank (js ''Patient reports headache for 3 days.'')"
    by (simp add: blank_def js_def isWhiteSpace_def)
  have h: "write_accepted (example_env 10) example_db 1" by (rule example_write_accepted)
  from nonblank_transcript_verbatim [OF b h, of example_page example_blob] b h
  show ?thesis by blast
qed

text \<open>
  Claim C8. The write on transcript arrival, in either branch, never stores a reviewed
  note: every reviewed row of \<open>medical_notes\<close> after the handler was there, unchanged,
  before it, and the row written has \<open>is_reviewed = false\<close>.
\<close>

theorem transcript_write_not_reviewed:
  assumes "handleTranscriptionComplete e i (db, st) t audioBlob = Inr (db', st')"
  shows "(\<forall>r \<in> set (medical_notes db'). is_reviewed r \<longrightarrow> r \<in> set (medical_notes db)) \<and>
         (write_accepted e db i \<longrightarrow>
            (\<exists>n. medicalNote st' = Some n \<and> n \<in> set (medical_notes db') \<and>
                 note_id n = gen_random_uuid e \<and> \<not> is_reviewed n))"
proof
  show "\<forall>r \<in> set (medical_notes db'). is_reviewed r \<longrightarrow> r \<in> set (medical_notes db)"
    using assms
    by (auto simp: handleTranscriptionComplete_def transcription_try_def Let_def new_note_def
             split: if_splits sum.splits dest!: upsert_Inr_row)
next
  show "write_accepted e db i \<longrightarrow>
            (\<exists>n. medicalNote st' = Some n \<and> n \<in> set (medical_notes db') \<and>
                 note_id n = gen_random_uuid e \<and> \<not> is_reviewed n)"
  proof
    assume w: "write_accepted e db i"
    show "\<exists>n. medicalNote st' = Some n \<and> n \<in> set (medical_notes db') \<and>
                 note_id n = gen_random_uuid e \<and> \<not> is_reviewed n"
    proof (cases "blank t")
      case True
      from placeholder_branch [OF True w, of st audioBlob] assms show ?thesis by auto
    next
      case False
      from verbatim_branch [OF False w, of st audioBlob] assms show ?thesis by auto
    qed
  qed
qed

text \<open>
  A run with a transcript that is stored verbatim.
\<close>

theorem transcript_write_not_reviewed_witness:
  "\<exists>db' st'. handleTranscriptionComplete (example_env 10) 1 (example_db, example_page)
                 (js ''Dry cough.'') example_blob = Inr (db', st') \<and>
      write_accepted (example_env 10) example_db 1 \<and>
      list_all (\<lambda>r. \<not> is_reviewed r) (medical_notes db') \<and>
      (\<exists>n. medicalNote st' = Some n \<and> n \<in> set (medical_notes db') \<and> \<not> is_reviewed n)"
proof -
  obtain db' st' where
    r: "handleTranscriptionComplete (example_env 10) 1 (example_db, example_page)
          (js ''Dry cough.'') example_blob = Inr (db', st')"
    using handler_never_throws by blast
  have h: "write_accepted (example_env 10) example_db 1" by (rule example_write_accepted)
  have old: "medical_notes example_db = []" by (simp add: example_db_def)
  from transcript_write_not_reviewed [OF r] h old
  have "list_all (\<lambda>r. \<not> is_reviewed r) (medical_notes db')"
    and "\<exists>n. medicalNote st' = Some n \<and> n \<in> set (medical_notes db') \<and> \<not> is_reviewed n"
    by (auto simp: list_all_iff)
  with r h show ?thesis by blast
qed

text \<open>
  The other handlers that write to the database, \<open>handleSubmit\<close> and
  \<open>handleCompleteConsultation\<close>, leave \<open>medical_notes\<close> as it is.
\<close>

lemma other_handlers_keep_notes:
  "handleSubmit e (db, d) = Inr (db', d') \<Longrightarrow> medical_notes db' = medical_notes db"
  "handleCompleteConsultation e i (db, st) = Inr (db'', st'') \<Longrightarrow> medical_notes db'' = medical_notes db"
  by (auto simp: handleSubmit_def insert_consultation_def handleCompleteConsultation_def
        update_consultation_status_def Let_def split: option.splits if_splits sum.splits)

section \<open>A second transcription\<close>

text \<open>
  Every accepted write whose drawn id is new adds a row for the consultation.
\<close>

lemma accepted_write_appends:
  assumes "write_accepted e db i"
    and "gen_random_uuid e \<notin> set (map note_id (medical_notes db))"
    and "handleTranscriptionComplete e i (db, st) t audioBlob = Inr (db', st')"
  shows "length (notes_of db' i) = Suc (length (notes_of db i))"
proof -
  from assms(2) have fresh: "\<not> (\<exists>r \<in> set (medical_notes db). note_id r = gen_random_uuid e)"
    by (auto simp: image_iff)
  from assms(1) have ok: "gateway_fault e = None" "owns_consultation e db i"
    by (simp_all add: write_accepted_def)
  show ?thesis
    using assms(3) fresh ok
    by (auto simp: handleTranscriptionComplete_def transcription_try_def upsert_medical_note_def
        notes_of_def new_note_def Let_def split: if_splits)
qed

text \<open>
  Claim C1. The code at two calls for the same consultation: on the example database
  (consultation 1, no note), \<open>handleTranscriptionComplete\<close> with "first" and then with
  "second", the ids 10 and 11 being drawn for the rows. Afterwards \<open>medical_notes\<close>
  holds two rows for consultation 1, one per call; the second call has not overwritten
  the row of the first.
\<close>

theorem second_transcription_adds_row:
  "\<not> isl (handleTranscriptionComplete (example_env 10) 1 (example_db, example_page)
            (js ''first'') example_blob) \<and>
   \<not> isl (handleTranscriptionComplete (example_env 11) 1
            (projr (handleTranscriptionComplete (example_env 10) 1 (example_db, example_page)
                      (js ''first'') example_blob))
            (js ''second'') example_blob) \<and>
   map raw_transcript
     (notes_of
        (fst (projr (handleTranscriptionComplete (example_env 11) 1
                 (projr (handleTranscriptionComplete (example_env 10) 1 (example_db, example_page)
                           (js ''first'') example_blob))
                 (js ''second'') example_blob)))
        1)
   = [js ''first'', js ''second''] \<and>
   map note_id
     (notes_of
        (fst (projr (handleTranscriptionComplete (example_env 11) 1
                 (projr (handleTranscriptionComplete (example_env 10) 1 (example_db, example_page)
                           (js ''first'') example_blob))
                 (js ''second'') example_blob)))
        1)
   = [10, 11]"
  by (simp add: page_defs example_defs notes_of_def)

section \<open>Saving a note\<close>

text \<open>
  Claim C7. For every database and page state, when \<open>handleSaveNote\<close> returns, each row
  of \<open>medical_notes\<close> has the \<open>raw_transcript\<close> (and id, consultation and entities) it
  had before; the rows with the id of the note that the user may update are reviewed and
  carry the four SOAP fields of the note; every other row is as it was.
\<close>

theorem save_note_reviewed_keeps_transcript:
  assumes "handleSaveNote e (db, st) note = Inr (db', st')"
  shows "map raw_transcript (medical_notes db') = map raw_transcript (medical_notes db) \<and>
         map note_id (medical_notes db') = map note_id (medical_notes db) \<and>
         map consultation_id (medical_notes db') = map consultation_id (medical_notes db) \<and>
         map extracted_entities (medical_notes db') = map extracted_entities (medical_notes db) \<and>
         (\<forall>r \<in> set (medical_notes db').
            note_id r = note_id note \<and> owns_consultation e db (consultation_id r) \<longrightarrow>
              is_reviewed r \<and> subjective r = subjective note \<and> objective r = objective note \<and>
              assessment r = assessment note \<and> plan r = plan note) \<and>
         (\<forall>r \<in> set (medical_notes db').
            \<not> (note_id r = note_id note \<and> owns_consultation e db (consultation_id r)) \<longrightarrow>
              r \<in> set (medical_notes db))"
  using assms
  by (auto simp: handleSaveNote_def update_medical_note_def split: option.splits sum.splits if_splits)

text \<open>
  Saving an edited assessment for the stored example note.
\<close>

theorem save_note_reviewed_keeps_transcript_witness:
  "\<exists>db' st'.
     handleSaveNote (example_env 0)
        (example_db\<lparr>medical_notes := [example_note]\<rparr>, example_page\<lparr>medicalNote := Some example_note\<rparr>)
        (example_note\<lparr>assessment := js ''Bronchitis''\<rparr>) = Inr (db', st') \<and>
     map raw_transcript (medical_notes db') = [js ''Dry cough.''] \<and>
     map is_reviewed (medical_notes db') = [True] \<and>
     map assessment (medical_notes db') = [js ''Bronchitis'']"
proof -
  let ?db = "example_db\<lparr>medical_notes := [example_note]\<rparr>"
  let ?st = "example_page\<lparr>medicalNote := Some example_note\<rparr>"
  let ?n = "example_note\<lparr>assessment := js ''Bronchitis''\<rparr>"
  obtain db' st' where r: "handleSaveNote (example_env 0) (?db, ?st) ?n = Inr (db', st')"
    by (simp add: handleSaveNote_def update_medical_note_def example_env_def)
  have own: "owns_consultation (example_env 0) ?db 1"
    by (simp add: owns_consultation_def example_defs)
  from save_note_reviewed_keeps_transcript [OF r]
  have a: "map raw_transcript (medical_notes db') = [js ''Dry cough.'']"
    and b: "map note_id (medical_notes db') = [10]"
    and c: "map consultation_id (medical_notes db') = [1]"
    and d: "\<forall>r \<in> set (medical_notes db').
            note_id r = 10 \<and> owns_consultation (example_env 0) ?db (consultation_id r) \<longrightarrow>
              is_reviewed r \<and> assessment r = js ''Bronchitis''"
    by (simp_all add: example_note_def)
  from b c obtain r where l: "medical_notes db' = [r]" and "note_id r = 10" and "consultation_id r = 1"
    by (cases "medical_notes db'") auto
  with d own have "is_reviewed r" "assessment r = js ''Bronchitis''" by auto
  with l a r show ?thesis by auto
qed

section \<open>Creating a consultation\<close>

text \<open>
  Claim C9. With a non-empty patient name, a signed-in practitioner who has a profile
  and a service that answers, \<open>handleSubmit\<close> returns normally; the primary key rejects
  a drawn id that is already in the table and nothing is inserted, and otherwise exactly
  one row is appended: owned by the practitioner, with status \<open>in_progress\<close>, the given
  name, and an id no existing consultation has. Ids that were distinct stay distinct.
\<close>

theorem new_consultation_in_progress_fresh_id:
  assumes "patientName d \<noteq> []" and "gateway_fault e = None"
    and "auth_uid e = Some u" and "u \<in> set (profiles db)"
  shows "\<exists>db' d'. handleSubmit e (db, d) = Inr (db', d') \<and>
           (if gen_random_uuid e \<in> set (map c_id (consultations db))
            then db' = db \<and> navigated_to d' = navigated_to d
            else (\<exists>row. consultations db' = consultations db @ [row] \<and>
                    c_status row = in_progress \<and> doctor_id row = u \<and>
                    patient_name row = patientName d \<and>
                    navigated_to d' = Some (c_id row) \<and>
                    (\<forall>c \<in> set (consultations db). c_id c \<noteq> c_id row))) \<and>
           (distinct (map c_id (consultations db)) \<longrightarrow> distinct (map c_id (consultations db')))"
proof (cases "\<exists>c \<in> set (consultations db). c_id c = gen_random_uuid e")
  case True
  then have "gen_random_uuid e \<in> set (map c_id (consultations db))" by force
  with assms show ?thesis
    by (simp add: handleSubmit_def insert_consultation_def)
next
  case False
  then have n: "gen_random_uuid e \<notin> set (map c_id (consultations db))" by force
  with assms False show ?thesis
    by (simp add: handleSubmit_def insert_consultation_def Let_def)
qed

text \<open>
  A second consultation on the example database, with the id 2 drawn.
\<close>

theorem new_consultation_in_progress_fresh_id_witness:
  "patientName example_dialog \<noteq> [] \<and> gateway_fault (example_env 2) = None \<and>
   auth_uid (example_env 2) = Some 7 \<and> 7 \<in> set (profiles example_db) \<and>
   (\<exists>db' d'. handleSubmit (example_env 2) (example_db, example_dialog) = Inr (db', d') \<and>
      map c_id (consultations db') = [1, 2] \<and> map c_status (consultations db') = [in_progress, in_progress] \<and>
      map doctor_id (consultations db') = [7, 7] \<and> navigated_to d' = Some 2)"
proof -
  have h1: "patientName example_dialog \<noteq> []" by (simp add: example_dialog_def js_def)
  have h2: "gateway_fault (example_env 2) = None" by (simp add: example_env_def)
  have h3: "auth_uid (example_env 2) = Some 7" by (simp add: example_env_def)
  have h4: "7 \<in> set (profiles example_db)" by (simp add: example_db_def)
  from new_consultation_in_progress_fresh_id [OF h1 h2 h3 h4]
  obtain db' d' row where r: "handleSubmit (example_env 2) (example_db, example_dialog) = Inr (db', d')"
    and c: "consultations db' = consultations example_db @ [row]"
       "c_status row = in_progress" "doctor_id row = 7" "navigated_to d' = Some (c_id row)"
    by (auto simp: example_env_def example_db_def)
  have "c_id row = 2" using r c(1)
    by (auto simp: handleSubmit_def insert_consultation_def Let_def example_defs example_dialog_def)
  with r c h1 h2 h3 h4 show ?thesis by (auto simp: example_db_def)
qed

section \<open>The poll loop\<close>

text \<open>
  For any vendor the loop ends after at most \<open>maxAttempts\<close> status requests, and has
  waited one second per request.
\<close>

lemma poll_bounded:
  "attempts \<le> maxAttempts \<Longrightarrow>
     (case poll vendor maxAttempts attempts waited of
        (res, requests, elapsed) \<Rightarrow>
          attempts \<le> requests \<and> requests \<le> maxAttempts \<and>
          elapsed = waited + 1000 * (requests - attempts))"
proof (induction vendor maxAttempts attempts waited rule: poll.induct)
  case (1 vendor maxAttempts attempts waited)
  show ?case
  proof (cases "attempts < maxAttempts")
    case False
    with "1.prems" show ?thesis by (subst poll.simps) simp
  next
    case True
    show ?thesis
    proof (cases "vendor attempts")
      case StatusNotOk
      with True show ?thesis by (subst poll.simps) simp
    next
      case (StatusBadJson m)
      with True show ?thesis by (subst poll.simps) simp
    next
      case (StatusData st tx err)
      show ?thesis
      proof (cases "st = js ''completed'' \<or> st = js ''error''")
        case True
        with \<open>attempts < maxAttempts\<close> StatusData show ?thesis
          by (subst poll.simps) (auto simp: Let_def)
      next
        case False
        with \<open>attempts < maxAttempts\<close> StatusData
        have step: "poll vendor maxAttempts attempts waited =
                      poll vendor maxAttempts (attempts + 1) (waited + 1000)"
          by (subst poll.simps) simp
        from False \<open>attempts < maxAttempts\<close> StatusData
        have "case poll vendor maxAttempts (attempts + 1) (waited + 1000) of
                (res, requests, elapsed) \<Rightarrow>
                  attempts + 1 \<le> requests \<and> requests \<le> maxAttempts \<and>
                  elapsed = waited + 1000 + 1000 * (requests - (attempts + 1))"
          using "1.IH" [of "waited + 1000" st tx err] by simp
        then show ?thesis unfolding step by (auto split: prod.splits)
      qed
    qed
  qed
qed

lemma poll_pending:
  "attempts \<le> maxAttempts \<Longrightarrow> \<forall>k. attempts \<le> k \<and> k < maxAttempts \<longrightarrow> pending (vendor k) \<Longrightarrow>
     poll vendor maxAttempts attempts waited =
       (Inl (js ''Transcription timeout''), maxAttempts, waited + 1000 * (maxAttempts - attempts))"
proof (induction vendor maxAttempts attempts waited rule: poll.induct)
  case (1 vendor maxAttempts attempts waited)
  show ?case
  proof (cases "attempts < maxAttempts")
    case False
    with "1.prems" show ?thesis by (subst poll.simps) simp
  next
    case True
    with "1.prems" have "pending (vendor attempts)" by simp
    then obtain st tx err where d: "vendor attempts = StatusData st tx err"
      and ne: "st \<noteq> js ''completed''" "st \<noteq> js ''error''"
      by (auto simp: pending_def split: status_reply.splits)
    from True d ne have step: "poll vendor maxAttempts attempts waited =
                      poll vendor maxAttempts (attempts + 1) (waited + 1000)"
      by (subst poll.simps) simp
    have "poll vendor maxAttempts (attempts + 1) (waited + 1000) =
            (Inl (js ''Transcription timeout''), maxAttempts,
             waited + 1000 + 1000 * (maxAttempts - (attempts + 1)))"
      using "1.IH" [of "waited + 1000" st tx err] True d ne "1.prems" by simp
    with True show ?thesis unfolding step by (simp add: algebra_simps)
  qed
qed

text \<open>
  Claim C6. When every status answer within the cap is ok and is neither \<open>completed\<close>
  nor \<open>error\<close>, the loop ends after exactly \<open>maxAttempts\<close> requests and
  \<open>maxAttempts\<close> seconds of waiting with the error "Transcription timeout", and the
  handler answers with status 500 and that message: after 30 requests in
  transcribe-assemblyai, after 60 in transcribe-audio.
\<close>

theorem poll_never_completed_times_out:
  assumes "\<forall>k < maxAttempts. pending (vendor k)" and "method \<noteq> js ''OPTIONS''"
  shows "poll vendor maxAttempts 0 0 =
           (Inl (js ''Transcription timeout''), maxAttempts, 1000 * maxAttempts) \<and>
         transcribe_handler maxAttempts method (Inr job) vendor =
           error_response (js ''Transcription timeout'') \<and>
         (maxAttempts = 30 \<longrightarrow>
            transcribe_assemblyai method (Inr job) vendor = error_response (js ''Transcription timeout'')) \<and>
         (maxAttempts = 60 \<longrightarrow>
            transcribe_audio method (Inr job) vendor = error_response (js ''Transcription timeout''))"
proof -
  from assms(1) have p: "poll vendor maxAttempts 0 0 =
           (Inl (js ''Transcription timeout''), maxAttempts, 1000 * maxAttempts)"
    using poll_pending [of 0 maxAttempts vendor 0] by simp
  with assms(2) have h: "transcribe_handler maxAttempts method (Inr job) vendor =
           error_response (js ''Transcription timeout'')"
    by (simp add: transcribe_handler_def)
  have "maxAttempts = 30 \<longrightarrow>
            transcribe_assemblyai method (Inr job) vendor = error_response (js ''Transcription timeout'')"
    using h by (auto simp: transcribe_assemblyai_def)
  moreover have "maxAttempts = 60 \<longrightarrow>
            transcribe_audio method (Inr job) vendor = error_response (js ''Transcription timeout'')"
    using h by (auto simp: transcribe_audio_def)
  ultimately show ?thesis using p h by blast
qed

text \<open>
  A vendor that answers \<open>processing\<close> for ever, polled by transcribe-assemblyai.
\<close>

theorem poll_never_completed_times_out_witness:
  "pending (StatusData (js ''processing'') [] []) \<and> js ''POST'' \<noteq> js ''OPTIONS'' \<and>
   poll (\<lambda>k. StatusData (js ''processing'') [] []) 30 0 0 =
     (Inl (js ''Transcription timeout''), 30, 30000) \<and>
   transcribe_assemblyai (js ''POST'') (Inr (js ''job-1'')) (\<lambda>k. StatusData (js ''processing'') [] []) =
     \<lparr>resp_status = 500,
      resp_body = Json (JObject [(js ''error'', JString (js ''Transcription timeout''))])\<rparr>"
proof -
  have h1: "pending (StatusData (js ''processing'') [] [])" by (simp add: pending_def js_def)
  then have h1': "\<forall>k < 30. pending ((\<lambda>k. StatusData (js ''processing'') [] []) k)" by simp
  have h2: "js ''POST'' \<noteq> js ''OPTIONS''" by (simp add: js_def)
  from poll_never_completed_times_out [OF h1' h2, of "js ''job-1''"] h1 h2
  show ?thesis by (simp add: error_response_def)
qed


section \<open>Note generation\<close>

text \<open>
  The chat-completion variant answers a content that does not parse with status 200 and
  the raw content as \<open>subjective\<close>, the other three fields marked as unparsed.
\<close>

lemma openai_non_json_fallback:
  assumes "JSON_parse content = Inl m" and "req_method req \<noteq> js ''OPTIONS''"
    and "req_transcript req \<noteq> []"
  shows "generate_soap_note_openai JSON_parse req (CompletionContent content) =
           \<lparr>resp_status = 200,
            resp_body = Json (JObject
              [(js ''subjective'', JString content),
               (js ''objective'', JString unparsed),
               (js ''assessment'', JString unparsed),
               (js ''plan'', JString unparsed),
               (js ''extracted_entities'', JObject [])])\<rparr>"
  using assms by (simp add: generate_soap_note_openai_def soap_openai_try_def)

text \<open>
  Claim C2. The code of \<open>generate-soap-note/index.ts\<close> at a reply that is not JSON:
  \<open>JSON.parse\<close> throws inside the outer \<open>try\<close>, and the handler answers with status
  500 and an \<open>error\<close> member holding the parser's message. No note object with
  \<open>subjective\<close>, \<open>objective\<close>, \<open>assessment\<close> and \<open>plan\<close> is returned.
\<close>

theorem gemini_non_json_is_error:
  assumes "JSON_parse processedText = Inl m" and "req_method req \<noteq> js ''OPTIONS''"
    and "req_transcript req \<noteq> []" and "geminiApiKey \<noteq> []"
  shows "generate_soap_note JSON_parse req (Some geminiApiKey) (Inr processedText) =
           \<lparr>resp_status = 500, resp_body = Json (JObject [(js ''error'', JString m)])\<rparr>"
  using assms by (simp add: generate_soap_note_def soap_gemini_try_def error_response_def)

text \<open>
  A reply in prose for the transcript of the specification's example.
\<close>

theorem gemini_non_json_is_error_witness:
  "example_parse (js ''Subjective: headache for 3 days.'') = Inl (js ''Unexpected token'') \<and>
   js ''POST'' \<noteq> js ''OPTIONS'' \<and> js ''Patient reports headache for 3 days.'' \<noteq> [] \<and>
   js ''key'' \<noteq> [] \<and>
   generate_soap_note example_parse
     \<lparr>req_method = js ''POST'', req_transcript = js ''Patient reports headache for 3 days.'',
      req_patientName = []\<rparr>
     (Some (js ''key'')) (Inr (js ''Subjective: headache for 3 days.'')) =
     \<lparr>resp_status = 500,
      resp_body = Json (JObject [(js ''error'', JString (js ''Unexpected token''))])\<rparr>"
proof -
  let ?req = "\<lparr>req_method = js ''POST'', req_transcript = js ''Patient reports headache for 3 days.'',
      req_patientName = []\<rparr>"
  have h1: "example_parse (js ''Subjective: headache for 3 days.'') = Inl (js ''Unexpected token'')"
    by (simp add: example_parse_def js_def)
  have h2: "req_method ?req \<noteq> js ''OPTIONS''" by (simp add: js_def)
  have h3: "req_transcript ?req \<noteq> []" by (simp add: js_def)
  have h5: "js ''key'' \<noteq> []" by (simp add: js_def)
  from gemini_non_json_is_error
         [of example_parse "js ''Subjective: headache for 3 days.''" "js ''Unexpected token''"
             ?req "js ''key''"] h1 h2 h3 h5
  show ?thesis by simp
qed

section \<open>The recorder after a recording is finalized\<close>

lemma streaming_blank:
  assumes "base64_result te = Inr b64" and "backend te = BackendData [] tx" and "blank tx"
  shows "transcribeWithAssemblyAIStreaming cb te audioBlob parent =
           Inr (cb noSpeechPlaceholder audioBlob parent)"
proof -
  from assms(3) have "tx = [] \<or> length (trim tx) = 0" using missing_iff [of tx] by simp
  then have "or_else tx [] = [] \<or> length (trim (or_else tx [])) = 0"
    by (auto simp: or_else_def)
  with assms(1,2) show ?thesis
    by (simp add: transcribeWithAssemblyAIStreaming_def Let_def)
qed

lemma streaming_fails:
  assumes "transcription_fails te"
  shows "\<exists>m. transcribeWithAssemblyAIStreaming cb te audioBlob parent = Inl m"
  using assms
  by (auto simp: transcription_fails_def transcribeWithAssemblyAIStreaming_def
           split: sum.splits backend_reply.splits)

text \<open>
  The backend answers with a status that is not ok: the recorder shows a
  "Transcription Error" toast, and the page and the database are as before.
  The callback has not been called, and no note exists.
\<close>

theorem failed_transcription_creates_no_note:
  "transcribeAudio (onTranscriptionComplete (example_env 10) 1)
     \<lparr>base64_result = Inr (js ''GkXfow==''), backend = BackendNotOk (js ''Transcription timeout'')\<rparr>
     example_blob (example_recorder, (example_db, example_page)) =
   (\<lparr>isTranscribing = False,
     recorder_toasts =
       [\<lparr>title = js ''Transcription Error'',
         description = js ''Failed to transcribe audio: Backend transcription failed: Transcription timeout'',
         destructive = True\<rparr>]\<rparr>,
    (example_db, example_page)) \<and>
   medical_notes example_db = []"
  by (simp add: transcribeAudio_def transcribeWithAssemblyAIStreaming_def example_recorder_def
        or_else_def js_def example_db_def)

text \<open>
  Claim C5, amended. When the transcription request succeeds with an empty or
  white-space text, the recorder calls \<open>onTranscriptionComplete\<close> with its fixed
  placeholder, and the page stores a note with that placeholder (when the persistence
  gateway accepts the write). When the transcription request fails, the recorder adds a
  toast and does not call \<open>onTranscriptionComplete\<close>: the page state is untouched.
\<close>

theorem blank_transcription_substitutes_placeholder:
  "(base64_result te = Inr b64 \<and> backend te = BackendData [] tx \<and> blank tx \<longrightarrow>
      transcribeAudio cb te audioBlob (r, parent) =
        (r\<lparr>isTranscribing := False\<rparr>, cb noSpeechPlaceholder audioBlob parent) \<and>
      (write_accepted e db i \<longrightarrow>
         (\<exists>r' db' st' n.
            transcribeAudio (onTranscriptionComplete e i) te audioBlob (r, (db, st)) = (r', (db', st')) \<and>
            medicalNote st' = Some n \<and> n \<in> set (medical_notes db') \<and> consultation_id n = i \<and>
            subjective n = noSpeechPlaceholder \<and> raw_transcript n = noSpeechPlaceholder))) \<and>
   (transcription_fails te \<longrightarrow>
      snd (transcribeAudio cb te audioBlob (r, parent)) = parent \<and>
      length (recorder_toasts (fst (transcribeAudio cb te audioBlob (r, parent)))) =
        Suc (length (recorder_toasts r)))"
proof (intro conjI impI)
  assume a: "base64_result te = Inr b64 \<and> backend te = BackendData [] tx \<and> blank tx"
  then have a1: "base64_result te = Inr b64" and a2: "backend te = BackendData [] tx"
    and a3: "blank tx" by simp_all
  have s1: "transcribeWithAssemblyAIStreaming cb te audioBlob parent =
           Inr (cb noSpeechPlaceholder audioBlob parent)"
    by (rule streaming_blank [OF a1 a2 a3])
  have s: "transcribeWithAssemblyAIStreaming (onTranscriptionComplete e i) te audioBlob (db, st) =
           Inr (onTranscriptionComplete e i noSpeechPlaceholder audioBlob (db, st))"
    by (rule streaming_blank [OF a1 a2 a3])
  show "transcribeAudio cb te audioBlob (r, parent) =
        (r\<lparr>isTranscribing := False\<rparr>, cb noSpeechPlaceholder audioBlob parent)"
    by (simp add: transcribeAudio_def s1)
  assume w: "write_accepted e db i"
  from verbatim_branch [OF not_blank_noSpeech w, of st audioBlob]
  obtain db' st' n where
    h: "handleTranscriptionComplete e i (db, st) noSpeechPlaceholder audioBlob = Inr (db', st')"
    and n: "medicalNote st' = Some n" "n \<in> set (medical_notes db')" "consultation_id n = i"
       "subjective n = noSpeechPlaceholder" "raw_transcript n = noSpeechPlaceholder"
    by blast
  have "transcribeAudio (onTranscriptionComplete e i) te audioBlob (r, (db, st)) =
          (r\<lparr>isTranscribing := False\<rparr>, (db', st'))"
    by (simp add: transcribeAudio_def s onTranscriptionComplete_def h)
  with n show "\<exists>r' db' st' n.
            transcribeAudio (onTranscriptionComplete e i) te audioBlob (r, (db, st)) = (r', (db', st')) \<and>
            medicalNote st' = Some n \<and> n \<in> set (medical_notes db') \<and> consultation_id n = i \<and>
            subjective n = noSpeechPlaceholder \<and> raw_transcript n = noSpeechPlaceholder"
    by blast
next
  assume f: "transcription_fails te"
  from streaming_fails [OF f, of cb audioBlob parent]
  obtain m where m: "transcribeWithAssemblyAIStreaming cb te audioBlob parent = Inl m" by blast
  then show "snd (transcribeAudio cb te audioBlob (r, parent)) = parent"
    by (simp add: transcribeAudio_def)
  from m show "length (recorder_toasts (fst (transcribeAudio cb te audioBlob (r, parent)))) =
        Suc (length (recorder_toasts r))"
    by (simp add: transcribeAudio_def)
qed

text \<open>
  A recording for which the backend returns a single space, and one for which it fails.
\<close>

theorem blank_transcription_substitutes_placeholder_witness:
  "blank (js '' '') \<and> write_accepted (example_env 10) example_db 1 \<and>
   transcription_fails \<lparr>base64_result = Inr (js ''GkXfow==''), backend = BackendNotOk (js ''no'')\<rparr> \<and>
   (\<exists>r' db' st' n.
      transcribeAudio (onTranscriptionComplete (example_env 10) 1)
         \<lparr>base64_result = Inr (js ''GkXfow==''), backend = BackendData [] (js '' '')\<rparr>
         example_blob (example_recorder, (example_db, example_page)) = (r', (db', st')) \<and>
      medicalNote st' = Some n \<and> n \<in> set (medical_notes db') \<and>
      subjective n = noSpeechPlaceholder \<and> raw_transcript n = noSpeechPlaceholder) \<and>
   snd (transcribeAudio (onTranscriptionComplete (example_env 10) 1)
          \<lparr>base64_result = Inr (js ''GkXfow==''), backend = BackendNotOk (js ''no'')\<rparr>
          example_blob (example_recorder, (example_db, example_page))) = (example_db, example_page)"
proof -
  let ?ok = "\<lparr>base64_result = Inr (js ''GkXfow==''), backend = BackendData [] (js '' '')\<rparr>"
  let ?bad = "\<lparr>base64_result = Inr (js ''GkXfow==''), backend = BackendNotOk (js ''no'')\<rparr>"
  have b: "blank (js '' '')" by (simp add: blank_def js_def isWhiteSpace_def)
  have w: "write_accepted (example_env 10) example_db 1" by (rule example_write_accepted)
  have f: "transcription_fails ?bad" by (simp add: transcription_fails_def)
  have a: "base64_result ?ok = Inr (js ''GkXfow=='') \<and> backend ?ok = BackendData [] (js '' '') \<and> blank (js '' '')"
    using b by simp
  from blank_transcription_substitutes_placeholder
         [of ?ok "js ''GkXfow==''" "js '' ''" "onTranscriptionComplete (example_env 10) 1" example_blob
             example_recorder "(example_db, example_page)" "example_env 10" example_db 1 example_page] a w
  have 1: "\<exists>r' db' st' n.
      transcribeAudio (onTranscriptionComplete (example_env 10) 1) ?ok
         example_blob (example_recorder, (example_db, example_page)) = (r', (db', st')) \<and>
      medicalNote st' = Some n \<and> n \<in> set (medical_notes db') \<and>
      subjective n = noSpeechPlaceholder \<and> raw_transcript n = noSpeechPlaceholder"
    by blast
  from blank_transcription_substitutes_placeholder
         [of ?bad "js ''GkXfow==''" "js '' ''" "onTranscriptionComplete (example_env 10) 1" example_blob
             example_recorder "(example_db, example_page)" "example_env 10" example_db 1 example_page] f
  have 2: "snd (transcribeAudio (onTranscriptionComplete (example_env 10) 1) ?bad
          example_blob (example_recorder, (example_db, example_page))) = (example_db, example_page)"
    by blast
  from b w f 1 2 show ?thesis by blast
qed

end
